theory Spec2Isabelle
  imports Complex_Main
begin

section \<open>Configuration (config.go)\<close>

text \<open>
  The process environment is a finite map from variable names to values.
  \<open>os.Getenv\<close> returns the empty string for a variable that is not set.
  \<open>LoadConfig\<close> first calls \<open>godotenv.Load\<close>, which only adds variables to the
  process environment (its failure is logged and ignored); the environment given to the
  model is the one the lookups see, after that call.
\<close>

type_synonym environ = "string \<rightharpoonup> string"

definition Getenv :: "environ \<Rightarrow> string \<Rightarrow> string" where
  "Getenv env key = (case env key of None \<Rightarrow> [] | Some v \<Rightarrow> v)"

record Config =
  JiraBaseURL :: string
  JiraUsername :: string
  JiraAPIToken :: string
  JiraProjectKey :: string
  Port :: string

definition getEnvOrDefault :: "environ \<Rightarrow> string \<Rightarrow> string \<Rightarrow> string" where
  "getEnvOrDefault env key defaultValue =
     (let v = Getenv env key in if v \<noteq> [] then v else defaultValue)"

definition LoadConfig :: "environ \<Rightarrow> string + Config" where
  "LoadConfig env =
     (let config = \<lparr> JiraBaseURL = getEnvOrDefault env ''JIRA_BASE_URL'' [],
                       JiraUsername = getEnvOrDefault env ''JIRA_USERNAME'' [],
                       JiraAPIToken = getEnvOrDefault env ''JIRA_API_TOKEN'' [],
                       JiraProjectKey = getEnvOrDefault env ''JIRA_PROJECT_KEY'' [],
                       Port = getEnvOrDefault env ''PORT'' ''8080'' \<rparr>
      in if JiraBaseURL config = [] then Inl ''JIRA_BASE_URL is required''
         else if JiraUsername config = [] then Inl ''JIRA_USERNAME is required''
         else if JiraAPIToken config = [] then Inl ''JIRA_API_TOKEN is required''
         else if JiraProjectKey config = [] then Inl ''JIRA_PROJECT_KEY is required''
         else Inr config)"


section \<open>Data model (jira/models.go)\<close>

text \<open>
  A \<open>time.Time\<close> is an instant; the zero value of the type is instant 0. Slices are
  lists (a nil slice and an empty slice are both the empty list). The open JSON values of
  the \<open>CustomFields\<close> maps, and the documents sent to the backend, are values of
  \<open>jvalue\<close>; an object keeps its members in the order they are written.
\<close>

type_synonym gotime = int

definition zeroTime :: gotime where
  "zeroTime = 0"

datatype jvalue =
    JNull
  | JBool bool
  | JNum rat
  | JStr string
  | JArr "jvalue list"
  | JObj "(string \<times> jvalue) list"

record TestCase =
  tc_ID :: string
  tc_Key :: string
  tc_Summary :: string
  tc_Description :: string
  tc_Status :: string
  tc_Priority :: string
  tc_Labels :: "string list"
  tc_Components :: "string list"
  tc_TestType :: string
  tc_CreatedDate :: gotime
  tc_UpdatedDate :: gotime
  tc_Reporter :: string
  tc_Assignee :: string
  tc_CustomFields :: "string \<rightharpoonup> jvalue"

record TestResult =
  tr_TestCaseKey :: string
  tr_Status :: string
  tr_Comment :: string
  tr_ExecutionTime :: int
  tr_ExecutedBy :: string
  tr_ExecutedOn :: gotime
  tr_Defects :: "string list"
  tr_Evidence :: "string list"

record TestExecution =
  te_ID :: string
  te_Key :: string
  te_Summary :: string
  te_Description :: string
  te_Status :: string
  te_TestCases :: "string list"
  te_ExecutionStatus :: string
  te_StartDate :: gotime
  te_EndDate :: gotime
  te_ExecutedBy :: string
  te_Environment :: string
  te_TestResults :: "TestResult list"
  te_CustomFields :: "string \<rightharpoonup> jvalue"

record IssueType =
  it_ID :: string
  it_Name :: string

record Project =
  pj_Key :: string
  pj_Name :: string

record Priority =
  pr_ID :: string
  pr_Name :: string

record Status =
  st_ID :: string
  st_Name :: string

record User =
  us_AccountID :: string
  us_EmailAddress :: string
  us_DisplayName :: string

record Component =
  cp_ID :: string
  cp_Name :: string

record IssueFields =
  if_Summary :: string
  if_Description :: string
  if_IssueType :: IssueType
  if_Project :: Project
  if_Priority :: Priority
  if_Status :: Status
  if_Reporter :: User
  if_Assignee :: User
  if_Labels :: "string list"
  if_Components :: "Component list"

record JiraIssue =
  ji_ID :: string
  ji_Key :: string
  ji_Fields :: IssueFields

record JiraResponse =
  jr_Issues :: "JiraIssue list"
  jr_StartAt :: int
  jr_MaxResults :: int
  jr_Total :: int

record ErrorResponse =
  er_ErrorMessages :: "string list"
  er_Errors :: "string \<rightharpoonup> string"

record CreateIssueRequest =
  cq_Fields :: IssueFields

record CreateIssueResponse =
  cr_ID :: string
  cr_Key :: string
  cr_Self :: string

subsection \<open>Zero values\<close>

definition zeroIssueType :: IssueType where
  "zeroIssueType = \<lparr> it_ID = [], it_Name = [] \<rparr>"

definition zeroProject :: Project where
  "zeroProject = \<lparr> pj_Key = [], pj_Name = [] \<rparr>"

definition zeroPriority :: Priority where
  "zeroPriority = \<lparr> pr_ID = [], pr_Name = [] \<rparr>"

definition zeroStatus :: Status where
  "zeroStatus = \<lparr> st_ID = [], st_Name = [] \<rparr>"

definition zeroUser :: User where
  "zeroUser = \<lparr> us_AccountID = [], us_EmailAddress = [], us_DisplayName = [] \<rparr>"

definition zeroIssueFields :: IssueFields where
  "zeroIssueFields =
     \<lparr> if_Summary = [], if_Description = [], if_IssueType = zeroIssueType,
       if_Project = zeroProject, if_Priority = zeroPriority, if_Status = zeroStatus,
       if_Reporter = zeroUser, if_Assignee = zeroUser, if_Labels = [], if_Components = [] \<rparr>"

definition zeroJiraIssue :: JiraIssue where
  "zeroJiraIssue = \<lparr> ji_ID = [], ji_Key = [], ji_Fields = zeroIssueFields \<rparr>"

definition zeroJiraResponse :: JiraResponse where
  "zeroJiraResponse = \<lparr> jr_Issues = [], jr_StartAt = 0, jr_MaxResults = 0, jr_Total = 0 \<rparr>"

definition zeroCreateIssueResponse :: CreateIssueResponse where
  "zeroCreateIssueResponse = \<lparr> cr_ID = [], cr_Key = [], cr_Self = [] \<rparr>"

definition zeroTestCase :: TestCase where
  "zeroTestCase =
     \<lparr> tc_ID = [], tc_Key = [], tc_Summary = [], tc_Description = [], tc_Status = [],
       tc_Priority = [], tc_Labels = [], tc_Components = [], tc_TestType = [],
       tc_CreatedDate = zeroTime, tc_UpdatedDate = zeroTime, tc_Reporter = [],
       tc_Assignee = [], tc_CustomFields = Map.empty \<rparr>"

definition zeroTestResult :: TestResult where
  "zeroTestResult =
     \<lparr> tr_TestCaseKey = [], tr_Status = [], tr_Comment = [], tr_ExecutionTime = 0,
       tr_ExecutedBy = [], tr_ExecutedOn = zeroTime, tr_Defects = [], tr_Evidence = [] \<rparr>"

definition zeroTestExecution :: TestExecution where
  "zeroTestExecution =
     \<lparr> te_ID = [], te_Key = [], te_Summary = [], te_Description = [], te_Status = [],
       te_TestCases = [], te_ExecutionStatus = [], te_StartDate = zeroTime,
       te_EndDate = zeroTime, te_ExecutedBy = [], te_Environment = [], te_TestResults = [],
       te_CustomFields = Map.empty \<rparr>"

subsection \<open>JSON encoding of the request types, by their struct tags\<close>

text \<open>
  \<open>encoding/json\<close> writes the fields of a struct in declaration order under the names
  of their tags. The option \<open>omitempty\<close> leaves a field out when its value is empty,
  which the package defines as false, 0, a nil pointer, a nil interface value, and any
  array, slice, map or string of length zero. A value of struct type is never empty, so
  a struct-typed field is written whether or not its tag carries \<open>omitempty\<close>: this
  holds for the fields \<open>Priority\<close>, \<open>Status\<close>, \<open>Reporter\<close> and \<open>Assignee\<close> of
  \<open>IssueFields\<close>. A string is written as it is (the replacement of invalid UTF-8 is
  not modelled).
\<close>

definition omitemptyString :: "string \<Rightarrow> string \<Rightarrow> (string \<times> jvalue) list" where
  "omitemptyString name v = (if v = [] then [] else [(name, JStr v)])"

definition omitemptySlice :: "string \<Rightarrow> jvalue list \<Rightarrow> (string \<times> jvalue) list" where
  "omitemptySlice name vs = (if vs = [] then [] else [(name, JArr vs)])"

definition marshalIssueType :: "IssueType \<Rightarrow> jvalue" where
  "marshalIssueType t = JObj (omitemptyString ''id'' (it_ID t) @ [(''name'', JStr (it_Name t))])"

definition marshalProject :: "Project \<Rightarrow> jvalue" where
  "marshalProject p = JObj ([(''key'', JStr (pj_Key p))] @ omitemptyString ''name'' (pj_Name p))"

definition marshalPriority :: "Priority \<Rightarrow> jvalue" where
  "marshalPriority p = JObj (omitemptyString ''id'' (pr_ID p) @ [(''name'', JStr (pr_Name p))])"

definition marshalStatus :: "Status \<Rightarrow> jvalue" where
  "marshalStatus s = JObj (omitemptyString ''id'' (st_ID s) @ [(''name'', JStr (st_Name s))])"

definition marshalUser :: "User \<Rightarrow> jvalue" where
  "marshalUser u =
     JObj (omitemptyString ''accountId'' (us_AccountID u)
           @ omitemptyString ''emailAddress'' (us_EmailAddress u)
           @ omitemptyString ''displayName'' (us_DisplayName u))"

definition marshalComponent :: "Component \<Rightarrow> jvalue" where
  "marshalComponent c = JObj (omitemptyString ''id'' (cp_ID c) @ [(''name'', JStr (cp_Name c))])"

definition marshalIssueFields :: "IssueFields \<Rightarrow> jvalue" where
  "marshalIssueFields f =
     JObj ([(''summary'', JStr (if_Summary f))]
           @ omitemptyString ''description'' (if_Description f)
           @ [(''issuetype'', marshalIssueType (if_IssueType f)),
              (''project'', marshalProject (if_Project f)),
              (''priority'', marshalPriority (if_Priority f)),
              (''status'', marshalStatus (if_Status f)),
              (''reporter'', marshalUser (if_Reporter f)),
              (''assignee'', marshalUser (if_Assignee f))]
           @ omitemptySlice ''labels'' (map JStr (if_Labels f))
           @ omitemptySlice ''components'' (map marshalComponent (if_Components f)))"

definition marshalCreateIssueRequest :: "CreateIssueRequest \<Rightarrow> jvalue" where
  "marshalCreateIssueRequest r = JObj [(''fields'', marshalIssueFields (cq_Fields r))]"


section \<open>Backend client (jira/client.go)\<close>

subsection \<open>Requests, responses, errors and the outside world\<close>

text \<open>
  A request carries the JSON document produced by \<open>json.Marshal\<close> as its body. A response
  carries its status code and the outcome of reading its body: \<open>Inl\<close> the read error,
  \<open>Inr\<close> the bytes.
\<close>

record http_request =
  rq_Method :: string
  rq_URL :: string
  rq_Header :: "(string \<times> string) list"
  rq_Body :: "jvalue option"

record http_response =
  rs_StatusCode :: int
  rs_Body :: "string + string"

text \<open>
  Errors are values. \<open>LibError\<close> is an error returned by a library call, by its text;
  \<open>Wrap p e\<close> is \<open>fmt.Errorf("p: %w", e)\<close>; \<open>HTTPError\<close> and \<open>JiraAPIError\<close> are the
  two errors \<open>handleResponse\<close> formats for a status of 400 or more.
\<close>

datatype client_error =
    LibError string
  | Wrap string client_error
  | HTTPError int string
  | JiraAPIError int "string list" "string \<rightharpoonup> string"

text \<open>
  What the code takes from its libraries and its surroundings is a parameter:
  the readings of the clock (\<open>rt_timeAt n\<close> is the value of the \<open>n\<close>-th call of
  \<open>time.Now\<close>), \<open>Time.AddDate\<close>, the base64 encoding, the validation of
  \<open>http.NewRequest\<close> (\<open>Some\<close> its error), the transport \<open>HTTPClient.Do\<close> (given the
  requests sent before and the request; \<open>Inl\<close> its error, which includes the timeout of
  30 seconds), and \<open>json.Unmarshal\<close> into each target type (\<open>Inl\<close> its error).
\<close>

record runtime =
  rt_timeAt :: "nat \<Rightarrow> gotime"
  rt_AddDate :: "gotime \<Rightarrow> int \<Rightarrow> int \<Rightarrow> int \<Rightarrow> gotime"
  rt_base64 :: "string \<Rightarrow> string"
  rt_NewRequest :: "string \<Rightarrow> string \<Rightarrow> string option"
  rt_Do :: "http_request list \<Rightarrow> http_request \<Rightarrow> string + http_response"
  rt_unmarshalErrorResponse :: "string \<Rightarrow> string + ErrorResponse"
  rt_unmarshalJiraResponse :: "string \<Rightarrow> string + JiraResponse"
  rt_unmarshalCreateIssueResponse :: "string \<Rightarrow> string + CreateIssueResponse"
  rt_unmarshalJiraIssue :: "string \<Rightarrow> string + JiraIssue"

text \<open>
  The state the operations change: the requests handed to the transport so far, in order,
  and the number of clock readings taken so far. Log output is not part of the model.
\<close>

record world =
  w_sent :: "http_request list"
  w_clock :: nat

definition Now :: "runtime \<Rightarrow> world \<Rightarrow> gotime \<times> world" where
  "Now rt w = (rt_timeAt rt (w_clock w), w\<lparr> w_clock := Suc (w_clock w) \<rparr>)"

subsection \<open>The client\<close>

record Client =
  cl_BaseURL :: string
  cl_Username :: string
  cl_APIToken :: string
  cl_ProjectKey :: string

definition HasSuffix :: "string \<Rightarrow> string \<Rightarrow> bool" where
  "HasSuffix s suffix \<longleftrightarrow>
     length s \<ge> length suffix \<and> drop (length s - length suffix) s = suffix"

definition TrimSuffix :: "string \<Rightarrow> string \<Rightarrow> string" where
  "TrimSuffix s suffix =
     (if HasSuffix s suffix then take (length s - length suffix) s else s)"

definition NewClient :: "string \<Rightarrow> string \<Rightarrow> string \<Rightarrow> string \<Rightarrow> Client" where
  "NewClient baseURL username apiToken projectKey =
     \<lparr> cl_BaseURL = TrimSuffix baseURL ''/'',
       cl_Username = username,
       cl_APIToken = apiToken,
       cl_ProjectKey = projectKey \<rparr>"

text \<open>
  \<open>makeRequest\<close>: the body, when there is one, is a \<open>CreateIssueRequest\<close>, whose
  encoding cannot fail. The request is recorded as sent as soon as it is handed to the
  transport, whether or not the transport then fails.
\<close>

definition makeRequest ::
  "runtime \<Rightarrow> Client \<Rightarrow> string \<Rightarrow> string \<Rightarrow> CreateIssueRequest option \<Rightarrow> world
     \<Rightarrow> (client_error + http_response) \<times> world" where
  "makeRequest rt c method endpoint body w =
     (let reqBody = (case body of None \<Rightarrow> None
                     | Some b \<Rightarrow> Some (marshalCreateIssueRequest b));
          url = cl_BaseURL c @ ''/rest/api/3/'' @ endpoint
      in case rt_NewRequest rt method url of
           Some err \<Rightarrow> (Inl (Wrap ''failed to create request'' (LibError err)), w)
         | None \<Rightarrow>
             (let auth = rt_base64 rt (cl_Username c @ '':'' @ cl_APIToken c);
                  req = \<lparr> rq_Method = method, rq_URL = url,
                          rq_Header = [(''Content-Type'', ''application/json''),
                                       (''Accept'', ''application/json''),
                                       (''Authorization'', ''Basic '' @ auth)],
                          rq_Body = reqBody \<rparr>;
                  w' = w\<lparr> w_sent := w_sent w @ [req] \<rparr>
              in case rt_Do rt (w_sent w) req of
                   Inl err \<Rightarrow> (Inl (Wrap ''failed to make request'' (LibError err)), w')
                 | Inr resp \<Rightarrow> (Inr resp, w')))"

text \<open>
  \<open>handleResponse\<close>: \<open>target\<close> is the decoder of the variable the caller passes (\<open>None\<close>
  for a nil target) and \<open>cur\<close> the value that variable holds before the call; the result
  is the value it holds afterwards.
\<close>

definition handleResponse ::
  "runtime \<Rightarrow> http_response \<Rightarrow> (string \<Rightarrow> string + 'a) option \<Rightarrow> 'a \<Rightarrow> client_error + 'a" where
  "handleResponse rt resp target cur =
     (case rs_Body resp of
        Inl err \<Rightarrow> Inl (Wrap ''failed to read response body'' (LibError err))
      | Inr body \<Rightarrow>
          if rs_StatusCode resp \<ge> 400 then
            (case rt_unmarshalErrorResponse rt body of
               Inl err \<Rightarrow> Inl (HTTPError (rs_StatusCode resp) body)
             | Inr errorResp \<Rightarrow>
                 Inl (JiraAPIError (rs_StatusCode resp) (er_ErrorMessages errorResp)
                        (er_Errors errorResp)))
          else
            (case target of
               None \<Rightarrow> Inr cur
             | Some unmarshal \<Rightarrow>
                 if length body > 0 then
                   (case unmarshal body of
                      Inl err \<Rightarrow> Inl (Wrap ''failed to unmarshal response'' (LibError err))
                    | Inr v \<Rightarrow> Inr v)
                 else Inr cur))"

definition isDemoCredentials :: "Client \<Rightarrow> bool" where
  "isDemoCredentials c \<longleftrightarrow>
     cl_Username c = ''demo_user'' \<or> cl_APIToken c = ''demo_token_replace_with_actual''"

subsection \<open>Mock data\<close>

definition getMockTestCases :: "runtime \<Rightarrow> world \<Rightarrow> TestCase list \<times> world" where
  "getMockTestCases rt w =
     (let (t1, w1) = Now rt w;
          (t2, w2) = Now rt w1;
          (t3, w3) = Now rt w2
      in ([ zeroTestCase\<lparr> tc_ID := ''10001'', tc_Key := ''TEST-1'',
              tc_Summary := ''Login functionality test'',
              tc_Description := ''Test user login with valid credentials'',
              tc_Status := ''To Do'', tc_Priority := ''High'',
              tc_Labels := [''login'', ''authentication''],
              tc_TestType := ''Manual'',
              tc_CreatedDate := rt_AddDate rt t1 0 0 (-7),
              tc_Reporter := ''Demo User'' \<rparr>,
            zeroTestCase\<lparr> tc_ID := ''10002'', tc_Key := ''TEST-2'',
              tc_Summary := ''Password reset functionality'',
              tc_Description := ''Test password reset flow'',
              tc_Status := ''In Progress'', tc_Priority := ''Medium'',
              tc_Labels := [''password'', ''reset''],
              tc_TestType := ''Automated'',
              tc_CreatedDate := rt_AddDate rt t2 0 0 (-5),
              tc_Reporter := ''Demo User'' \<rparr>,
            zeroTestCase\<lparr> tc_ID := ''10003'', tc_Key := ''TEST-3'',
              tc_Summary := ''User registration validation'',
              tc_Description := ''Test user registration with various input validations'',
              tc_Status := ''Done'', tc_Priority := ''Medium'',
              tc_Labels := [''registration'', ''validation''],
              tc_TestType := ''Manual'',
              tc_CreatedDate := rt_AddDate rt t3 0 0 (-3),
              tc_Reporter := ''Demo User'' \<rparr> ], w3))"

definition createMockTestCase :: "runtime \<Rightarrow> TestCase \<Rightarrow> world \<Rightarrow> TestCase \<times> world" where
  "createMockTestCase rt tc w =
     (let mockTC = tc;
          mockTC = mockTC\<lparr> tc_ID := ''10004'' \<rparr>;
          mockTC = mockTC\<lparr> tc_Key := ''TEST-4'' \<rparr>;
          mockTC = mockTC\<lparr> tc_Status := ''To Do'' \<rparr>;
          (t, w') = Now rt w;
          mockTC = mockTC\<lparr> tc_CreatedDate := t \<rparr>;
          mockTC = mockTC\<lparr> tc_Reporter := ''Demo User'' \<rparr>
      in (mockTC, w'))"

definition createMockTestExecution ::
  "runtime \<Rightarrow> TestExecution \<Rightarrow> world \<Rightarrow> TestExecution \<times> world" where
  "createMockTestExecution rt te w =
     (let mockTE = te;
          mockTE = mockTE\<lparr> te_ID := ''10005'' \<rparr>;
          mockTE = mockTE\<lparr> te_Key := ''EXEC-1'' \<rparr>;
          mockTE = mockTE\<lparr> te_Status := ''To Do'' \<rparr>;
          mockTE = mockTE\<lparr> te_ExecutionStatus := ''TODO'' \<rparr>;
          (t, w') = Now rt w;
          mockTE = mockTE\<lparr> te_StartDate := t \<rparr>;
          mockTE = mockTE\<lparr> te_ExecutedBy := ''Demo User'' \<rparr>
      in (mockTE, w'))"

definition getMockTestExecution :: "runtime \<Rightarrow> string \<Rightarrow> world \<Rightarrow> TestExecution \<times> world" where
  "getMockTestExecution rt key w =
     (let (t1, w1) = Now rt w;
          (t2, w2) = Now rt w1;
          (t3, w3) = Now rt w2
      in (zeroTestExecution\<lparr>
            te_ID := ''10005'',
            te_Key := key,
            te_Summary := ''Demo Test Execution'',
            te_Description := ''This is a demo test execution'',
            te_Status := ''In Progress'',
            te_TestCases := [''TEST-1'', ''TEST-2''],
            te_ExecutionStatus := ''EXECUTING'',
            te_StartDate := rt_AddDate rt t1 0 0 (-1),
            te_ExecutedBy := ''Demo User'',
            te_Environment := ''QA'',
            te_TestResults :=
              [ zeroTestResult\<lparr> tr_TestCaseKey := ''TEST-1'', tr_Status := ''PASS'',
                  tr_Comment := ''Test passed successfully'', tr_ExecutionTime := 5000,
                  tr_ExecutedBy := ''Demo User'', tr_ExecutedOn := t2 \<rparr>,
                zeroTestResult\<lparr> tr_TestCaseKey := ''TEST-2'', tr_Status := ''FAIL'',
                  tr_Comment := ''Test failed due to timeout'', tr_ExecutionTime := 10000,
                  tr_ExecutedBy := ''Demo User'', tr_ExecutedOn := t3,
                  tr_Defects := [''BUG-123''] \<rparr> ] \<rparr>, w3))"


subsection \<open>Operations\<close>

text \<open>The body of the loop of \<open>ListTestCases\<close>, and the loop over the issues.\<close>

definition issueTestCase :: "JiraIssue \<Rightarrow> TestCase" where
  "issueTestCase issue =
     zeroTestCase\<lparr>
       tc_ID := ji_ID issue,
       tc_Key := ji_Key issue,
       tc_Summary := if_Summary (ji_Fields issue),
       tc_Description := if_Description (ji_Fields issue),
       tc_Status := st_Name (if_Status (ji_Fields issue)),
       tc_Priority := pr_Name (if_Priority (ji_Fields issue)),
       tc_Labels := if_Labels (ji_Fields issue),
       tc_Reporter := us_DisplayName (if_Reporter (ji_Fields issue)),
       tc_Assignee := us_DisplayName (if_Assignee (ji_Fields issue)) \<rparr>"

fun issuesTestCases :: "JiraIssue list \<Rightarrow> TestCase list" where
  "issuesTestCases [] = []"
| "issuesTestCases (issue # issues) = issueTestCase issue # issuesTestCases issues"

definition ListTestCases ::
  "runtime \<Rightarrow> Client \<Rightarrow> world \<Rightarrow> (client_error + TestCase list) \<times> world" where
  "ListTestCases rt c w =
     (let jql = ''project = '' @ cl_ProjectKey c @ '' AND issuetype = Test'';
          endpoint = ''search?jql='' @ jql @ ''&maxResults=100''
      in case makeRequest rt c ''GET'' endpoint None w of
           (Inl err, w') \<Rightarrow> (Inl (Wrap ''failed to fetch test cases'' err), w')
         | (Inr resp, w') \<Rightarrow>
             (case handleResponse rt resp (Some (rt_unmarshalJiraResponse rt)) zeroJiraResponse of
                Inl err \<Rightarrow>
                  if isDemoCredentials c then
                    (let (mock, w'') = getMockTestCases rt w' in (Inr mock, w''))
                  else (Inl err, w')
              | Inr jiraResp \<Rightarrow> (Inr (issuesTestCases (jr_Issues jiraResp)), w')))"

text \<open>The creation request \<open>CreateTestCase\<close> builds for a test case.\<close>

definition testCaseCreateReq :: "Client \<Rightarrow> TestCase \<Rightarrow> CreateIssueRequest" where
  "testCaseCreateReq c tc =
     (let createReq =
            \<lparr> cq_Fields = zeroIssueFields\<lparr>
                if_Summary := tc_Summary tc,
                if_Description := tc_Description tc,
                if_IssueType := zeroIssueType\<lparr> it_Name := ''Test'' \<rparr>,
                if_Project := zeroProject\<lparr> pj_Key := cl_ProjectKey c \<rparr>,
                if_Labels := tc_Labels tc \<rparr> \<rparr>
      in if tc_Priority tc \<noteq> [] then
           createReq\<lparr> cq_Fields :=
             (cq_Fields createReq)\<lparr> if_Priority := zeroPriority\<lparr> pr_Name := tc_Priority tc \<rparr> \<rparr> \<rparr>
         else createReq)"

definition CreateTestCase ::
  "runtime \<Rightarrow> Client \<Rightarrow> TestCase \<Rightarrow> world \<Rightarrow> (client_error + TestCase) \<times> world" where
  "CreateTestCase rt c tc w =
     (if isDemoCredentials c then
        (let (mock, w') = createMockTestCase rt tc w in (Inr mock, w'))
      else
        (case makeRequest rt c ''POST'' ''issue'' (Some (testCaseCreateReq c tc)) w of
           (Inl err, w') \<Rightarrow> (Inl (Wrap ''failed to create test case'' err), w')
         | (Inr resp, w') \<Rightarrow>
             (case handleResponse rt resp (Some (rt_unmarshalCreateIssueResponse rt))
                     zeroCreateIssueResponse of
                Inl err \<Rightarrow> (Inl err, w')
              | Inr createResp \<Rightarrow>
                  (let createdTC = tc;
                       createdTC = createdTC\<lparr> tc_ID := cr_ID createResp \<rparr>;
                       createdTC = createdTC\<lparr> tc_Key := cr_Key createResp \<rparr>;
                       createdTC = createdTC\<lparr> tc_Status := ''To Do'' \<rparr>;
                       (t, w'') = Now rt w';
                       createdTC = createdTC\<lparr> tc_CreatedDate := t \<rparr>
                   in (Inr createdTC, w'')))))"

text \<open>The creation request \<open>CreateTestExecution\<close> builds for a test execution.\<close>

definition testExecutionCreateReq :: "Client \<Rightarrow> TestExecution \<Rightarrow> CreateIssueRequest" where
  "testExecutionCreateReq c te =
     \<lparr> cq_Fields = zeroIssueFields\<lparr>
         if_Summary := te_Summary te,
         if_Description := te_Description te,
         if_IssueType := zeroIssueType\<lparr> it_Name := ''Test Execution'' \<rparr>,
         if_Project := zeroProject\<lparr> pj_Key := cl_ProjectKey c \<rparr> \<rparr> \<rparr>"

definition CreateTestExecution ::
  "runtime \<Rightarrow> Client \<Rightarrow> TestExecution \<Rightarrow> world \<Rightarrow> (client_error + TestExecution) \<times> world" where
  "CreateTestExecution rt c te w =
     (if isDemoCredentials c then
        (let (mock, w') = createMockTestExecution rt te w in (Inr mock, w'))
      else
        (case makeRequest rt c ''POST'' ''issue'' (Some (testExecutionCreateReq c te)) w of
           (Inl err, w') \<Rightarrow> (Inl (Wrap ''failed to create test execution'' err), w')
         | (Inr resp, w') \<Rightarrow>
             (case handleResponse rt resp (Some (rt_unmarshalCreateIssueResponse rt))
                     zeroCreateIssueResponse of
                Inl err \<Rightarrow> (Inl err, w')
              | Inr createResp \<Rightarrow>
                  (let createdTE = te;
                       createdTE = createdTE\<lparr> te_ID := cr_ID createResp \<rparr>;
                       createdTE = createdTE\<lparr> te_Key := cr_Key createResp \<rparr>;
                       createdTE = createdTE\<lparr> te_Status := ''To Do'' \<rparr>;
                       createdTE = createdTE\<lparr> te_ExecutionStatus := ''TODO'' \<rparr>;
                       (t, w'') = Now rt w';
                       createdTE = createdTE\<lparr> te_StartDate := t \<rparr>
                   in (Inr createdTE, w'')))))"

definition GetTestExecution ::
  "runtime \<Rightarrow> Client \<Rightarrow> string \<Rightarrow> world \<Rightarrow> (client_error + TestExecution) \<times> world" where
  "GetTestExecution rt c key w =
     (if isDemoCredentials c then
        (let (mock, w') = getMockTestExecution rt key w in (Inr mock, w'))
      else
        (let endpoint = ''issue/'' @ key
         in case makeRequest rt c ''GET'' endpoint None w of
              (Inl err, w') \<Rightarrow> (Inl (Wrap ''failed to fetch test execution'' err), w')
            | (Inr resp, w') \<Rightarrow>
                (case handleResponse rt resp (Some (rt_unmarshalJiraIssue rt)) zeroJiraIssue of
                   Inl err \<Rightarrow> (Inl err, w')
                 | Inr issue \<Rightarrow>
                     (Inr (zeroTestExecution\<lparr>
                             te_ID := ji_ID issue,
                             te_Key := ji_Key issue,
                             te_Summary := if_Summary (ji_Fields issue),
                             te_Description := if_Description (ji_Fields issue),
                             te_Status := st_Name (if_Status (ji_Fields issue)) \<rparr>), w'))))"

section \<open>Request handlers (main.go)\<close>

text \<open>
  The process-wide variables \<open>config\<close> and \<open>jiraClient\<close>, set once by \<open>main\<close>.
\<close>

record app =
  config :: Config
  jiraClient :: Client

definition startup :: "environ \<Rightarrow> string + app" where
  "startup env =
     (case LoadConfig env of
        Inl err \<Rightarrow> Inl err
      | Inr cfg \<Rightarrow>
          Inr \<lparr> config = cfg,
                jiraClient = NewClient (JiraBaseURL cfg) (JiraUsername cfg)
                               (JiraAPIToken cfg) (JiraProjectKey cfg) \<rparr>)"

text \<open>
  The value a handler puts into a \<open>gin.H\<close>: the Go value before its encoding.
  \<open>GError e\<close> is the text \<open>e.Error()\<close> of a client error.
\<close>

datatype gval =
    GString string
  | GInt int
  | GBool bool
  | GStrings "string list"
  | GH "(string \<times> gval) list"
  | GHs "(string \<times> gval) list list"
  | GError client_error
  | GTestCase TestCase
  | GTestCases "TestCase list"
  | GTestExecution TestExecution

type_synonym H = "(string \<times> gval) list"

record reply =
  rp_Status :: int
  rp_Body :: H

definition StatusOK :: int where "StatusOK = 200"
definition StatusCreated :: int where "StatusCreated = 201"
definition StatusBadRequest :: int where "StatusBadRequest = 400"
definition StatusInternalServerError :: int where "StatusInternalServerError = 500"

definition JSON :: "int \<Rightarrow> H \<Rightarrow> reply" where
  "JSON code obj = \<lparr> rp_Status = code, rp_Body = obj \<rparr>"

definition healthCheck :: "app \<Rightarrow> reply" where
  "healthCheck a =
     JSON StatusOK
       [(''status'', GString ''healthy''),
        (''timestamp'',
           GH [(''unix'', GH [(''seconds'', GH [(''value'', GString ''current_time'')])])]),
        (''jira'',
           GH [(''base_url'', GString (JiraBaseURL (config a))),
               (''project_key'', GString (JiraProjectKey (config a))),
               (''demo_mode'', GBool (JiraUsername (config a) = ''demo_user''))])]"


definition getAPIInfo :: "app \<Rightarrow> reply" where
  "getAPIInfo a =
     JSON StatusOK
       [(''name'', GString ''Jira Xray-like Integration API''),
        (''version'', GString ''1.0.0''),
        (''description'',
           GString ''A Go application for test management with Jira integration''),
        (''endpoints'',
           GH [(''GET /api/health'', GString ''Health check''),
               (''GET /api/info'', GString ''API information''),
               (''GET /api/testcases'', GString ''List all test cases''),
               (''POST /api/testcases'', GString ''Create a new test case''),
               (''GET /api/testcases/:key'', GString ''Get a specific test case''),
               (''GET /api/testexecutions'', GString ''List all test executions''),
               (''POST /api/testexecutions'', GString ''Create a new test execution''),
               (''GET /api/testexecutions/:key'', GString ''Get a specific test execution'')]),
        (''example_requests'',
           GH [(''create_test_case'',
                  GH [(''method'', GString ''POST''),
                      (''url'', GString ''/api/testcases''),
                      (''body'',
                         GH [(''summary'', GString ''Sample Test Case''),
                             (''description'',
                                GString ''This is a sample test case description''),
                             (''priority'', GString ''High''),
                             (''labels'', GStrings [''api'', ''integration'']),
                             (''testType'', GString ''Manual'')])]),
               (''create_test_execution'',
                  GH [(''method'', GString ''POST''),
                      (''url'', GString ''/api/testexecutions''),
                      (''body'',
                         GH [(''summary'', GString ''Sample Test Execution''),
                             (''description'', GString ''This is a sample test execution''),
                             (''testCases'', GStrings [''TEST-1'', ''TEST-2'']),
                             (''environment'', GString ''QA'')])])]),
        (''configuration'',
           GH [(''jira_base_url'', GString (JiraBaseURL (config a))),
               (''project_key'', GString (JiraProjectKey (config a))),
               (''demo_mode'', GBool (JiraUsername (config a) = ''demo_user''))])]"

definition getTestCases :: "app \<Rightarrow> runtime \<Rightarrow> world \<Rightarrow> reply \<times> world" where
  "getTestCases a rt w =
     (case ListTestCases rt (jiraClient a) w of
        (Inl err, w') \<Rightarrow>
          (JSON StatusInternalServerError
             [(''error'', GString ''Failed to fetch test cases''),
              (''details'', GError err)], w')
      | (Inr testCases, w') \<Rightarrow>
          (JSON StatusOK
             [(''testCases'', GTestCases testCases),
              (''count'', GInt (int (length testCases))),
              (''message'', GString ''Test cases retrieved successfully'')], w'))"


definition getTestCase :: "app \<Rightarrow> runtime \<Rightarrow> string \<Rightarrow> world \<Rightarrow> reply \<times> world" where
  "getTestCase a rt key w =
     (JSON StatusOK
        [(''testCase'',
            GH [(''id'', GString ''10001''),
                (''key'', GString key),
                (''summary'', GString ''Sample Test Case''),
                (''description'', GString ''This is a sample test case''),
                (''status'', GString ''To Do''),
                (''priority'', GString ''Medium'')]),
         (''message'', GString ''Test case retrieved successfully'')], w)"

definition getTestExecutions :: "app \<Rightarrow> runtime \<Rightarrow> world \<Rightarrow> reply \<times> world" where
  "getTestExecutions a rt w =
     (let mockExecutions =
            [ [(''id'', GString ''10005''),
               (''key'', GString ''EXEC-1''),
               (''summary'', GString ''Sprint 1 Test Execution''),
               (''status'', GString ''In Progress''),
               (''executionStatus'', GString ''EXECUTING''),
               (''testCases'', GStrings [''TEST-1'', ''TEST-2'']),
               (''environment'', GString ''QA'')],
              [(''id'', GString ''10006''),
               (''key'', GString ''EXEC-2''),
               (''summary'', GString ''Regression Test Execution''),
               (''status'', GString ''Done''),
               (''executionStatus'', GString ''PASS''),
               (''testCases'', GStrings [''TEST-1'', ''TEST-2'', ''TEST-3'']),
               (''environment'', GString ''Staging'')] ]
      in (JSON StatusOK
            [(''testExecutions'', GHs mockExecutions),
             (''count'', GInt (int (length mockExecutions))),
             (''message'', GString ''Test executions retrieved successfully'')], w))"

definition createTestExecution ::
  "app \<Rightarrow> runtime \<Rightarrow> string + TestExecution \<Rightarrow> world \<Rightarrow> reply \<times> world" where
  "createTestExecution a rt bound w =
     (case bound of
        Inl err \<Rightarrow>
          (JSON StatusBadRequest
             [(''error'', GString ''Invalid request body''),
              (''details'', GString err)], w)
      | Inr testExecution \<Rightarrow>
          if te_Summary testExecution = [] then
            (JSON StatusBadRequest [(''error'', GString ''Summary is required'')], w)
          else if length (te_TestCases testExecution) = 0 then
            (JSON StatusBadRequest
               [(''error'', GString ''At least one test case is required'')], w)
          else
            (case CreateTestExecution rt (jiraClient a) testExecution w of
               (Inl err, w') \<Rightarrow>
                 (JSON StatusInternalServerError
                    [(''error'', GString ''Failed to create test execution''),
                     (''details'', GError err)], w')
             | (Inr createdTestExecution, w') \<Rightarrow>
                 (JSON StatusCreated
                    [(''testExecution'', GTestExecution createdTestExecution),
                     (''message'', GString ''Test execution created successfully'')], w')))"

definition getTestExecution :: "app \<Rightarrow> runtime \<Rightarrow> string \<Rightarrow> world \<Rightarrow> reply \<times> world" where
  "getTestExecution a rt key w =
     (case GetTestExecution rt (jiraClient a) key w of
        (Inl err, w') \<Rightarrow>
          (JSON StatusInternalServerError
             [(''error'', GString ''Failed to fetch test execution''),
              (''details'', GError err)], w')
      | (Inr testExecution, w') \<Rightarrow>
          (JSON StatusOK
             [(''testExecution'', GTestExecution testExecution),
              (''message'', GString ''Test execution retrieved successfully'')], w'))"

section \<open>Vocabulary of the statements\<close>

text \<open>A variable that is absent from the environment or set to the empty string.\<close>

definition unsetOrEmpty :: "environ \<Rightarrow> string \<Rightarrow> bool" where
  "unsetOrEmpty env key \<longleftrightarrow> env key = None \<or> env key = Some []"

text \<open>The header \<open>makeRequest\<close> sets, and the request of \<open>ListTestCases\<close>.\<close>

definition standardHeader :: "runtime \<Rightarrow> Client \<Rightarrow> (string \<times> string) list" where
  "standardHeader rt c =
     [(''Content-Type'', ''application/json''),
      (''Accept'', ''application/json''),
      (''Authorization'', ''Basic '' @ rt_base64 rt (cl_Username c @ '':'' @ cl_APIToken c))]"

definition listTestCasesRequest :: "runtime \<Rightarrow> Client \<Rightarrow> http_request" where
  "listTestCasesRequest rt c =
     \<lparr> rq_Method = ''GET'',
       rq_URL = cl_BaseURL c @ ''/rest/api/3/search?jql=project = '' @ cl_ProjectKey c
                  @ '' AND issuetype = Test&maxResults=100'',
       rq_Header = standardHeader rt c,
       rq_Body = None \<rparr>"

text \<open>
  A response on which \<open>handleResponse\<close> fails, in the words of the specification: its
  body cannot be read, its status is 400 or more, or its body is not empty and does not
  decode into the target. \<open>responseIssues\<close> are the issues an accepted response carries.
\<close>

definition responseFails :: "http_response \<Rightarrow> (string \<Rightarrow> string + 'a) \<Rightarrow> bool" where
  "responseFails resp unmarshal =
     (case rs_Body resp of
        Inl err \<Rightarrow> True
      | Inr body \<Rightarrow> rs_StatusCode resp \<ge> 400 \<or> (body \<noteq> [] \<and> isl (unmarshal body)))"


text \<open>The request the two creating operations send, given its JSON document.\<close>

definition createIssueRequest :: "runtime \<Rightarrow> Client \<Rightarrow> jvalue \<Rightarrow> http_request" where
  "createIssueRequest rt c payload =
     \<lparr> rq_Method = ''POST'',
       rq_URL = cl_BaseURL c @ ''/rest/api/3/issue'',
       rq_Header = standardHeader rt c,
       rq_Body = Some payload \<rparr>"

text \<open>
  The member \<open>demo_mode\<close> inside the member \<open>part\<close> of a reply's body, as the health
  and info endpoints report it.
\<close>

definition reportedDemoMode :: "reply \<Rightarrow> string \<Rightarrow> gval option" where
  "reportedDemoMode r part =
     (case map_of (rp_Body r) part of
        Some (GH members) \<Rightarrow> map_of members ''demo_mode''
      | _ \<Rightarrow> None)"

section \<open>Concrete inputs\<close>

text \<open>
  Environments: a complete one with an empty \<open>PORT\<close>, and four that lack one required
  variable each, by absence or by an empty value.
\<close>

definition envFull :: environ where
  "envFull = [''JIRA_BASE_URL'' \<mapsto> ''https://jira.example.com/'',
              ''JIRA_USERNAME'' \<mapsto> ''alice'',
              ''JIRA_API_TOKEN'' \<mapsto> ''s3cret'',
              ''JIRA_PROJECT_KEY'' \<mapsto> ''QA'',
              ''PORT'' \<mapsto> []]"

definition envEmptyToken :: environ where
  "envEmptyToken = [''JIRA_BASE_URL'' \<mapsto> ''https://jira.example.com/'',
                    ''JIRA_USERNAME'' \<mapsto> ''alice'',
                    ''JIRA_API_TOKEN'' \<mapsto> [],
                    ''JIRA_PROJECT_KEY'' \<mapsto> ''QA'']"

definition envNoBase :: environ where
  "envNoBase = [''JIRA_USERNAME'' \<mapsto> ''alice'',
                ''JIRA_API_TOKEN'' \<mapsto> ''s3cret'',
                ''JIRA_PROJECT_KEY'' \<mapsto> ''QA'']"

definition envEmptyUser :: environ where
  "envEmptyUser = [''JIRA_BASE_URL'' \<mapsto> ''https://jira.example.com/'',
                   ''JIRA_USERNAME'' \<mapsto> [],
                   ''JIRA_API_TOKEN'' \<mapsto> ''s3cret'',
                   ''JIRA_PROJECT_KEY'' \<mapsto> ''QA'']"

definition envNoProject :: environ where
  "envNoProject = [''JIRA_BASE_URL'' \<mapsto> ''https://jira.example.com/'',
                   ''JIRA_USERNAME'' \<mapsto> ''alice'',
                   ''JIRA_API_TOKEN'' \<mapsto> ''s3cret'']"

definition cfgFull :: Config where
  "cfgFull = \<lparr> JiraBaseURL = ''https://jira.example.com/'', JiraUsername = ''alice'',
                JiraAPIToken = ''s3cret'', JiraProjectKey = ''QA'', Port = ''8080'' \<rparr>"

text \<open>A client with both placeholder credentials.\<close>

definition demoClient :: Client where
  "demoClient = NewClient ''https://yourcompany.atlassian.net/'' ''demo_user''
                  ''demo_token_replace_with_actual'' ''TEST''"

text \<open>
  A machine without network: the clock counts seconds from 1700000000, one per reading,
  a day has 86400 seconds, every request is well formed and no host can be reached.
\<close>

definition rtOffline :: runtime where
  "rtOffline =
     \<lparr> rt_timeAt = (\<lambda>n. 1700000000 + int n),
       rt_AddDate = (\<lambda>t years months days. t + 86400 * days),
       rt_base64 = (\<lambda>s. s),
       rt_NewRequest = (\<lambda>method url. None),
       rt_Do = (\<lambda>sent req. Inl ''dial tcp: no such host''),
       rt_unmarshalErrorResponse = (\<lambda>body. Inl ''unexpected end of JSON input''),
       rt_unmarshalJiraResponse = (\<lambda>body. Inl ''unexpected end of JSON input''),
       rt_unmarshalCreateIssueResponse = (\<lambda>body. Inl ''unexpected end of JSON input''),
       rt_unmarshalJiraIssue = (\<lambda>body. Inl ''unexpected end of JSON input'') \<rparr>"

definition world0 :: world where
  "world0 = \<lparr> w_sent = [], w_clock = 0 \<rparr>"

definition world5 :: world where
  "world5 = \<lparr> w_sent = [], w_clock = 5 \<rparr>"

definition tcLogin :: TestCase where
  "tcLogin = zeroTestCase\<lparr> tc_Summary := ''Login works'',
               tc_Description := ''Valid credentials open the dashboard'',
               tc_Labels := [''login''], tc_TestType := ''Manual'' \<rparr>"

text \<open>A client with credentials of its own.\<close>

definition realClient :: Client where
  "realClient = NewClient ''https://jira.example.com/'' ''alice'' ''s3cret'' ''QA''"

text \<open>A backend that is reachable and answers every request with status 503.\<close>

definition resp503 :: http_response where
  "resp503 = \<lparr> rs_StatusCode = 503, rs_Body = Inr ''Service Unavailable'' \<rparr>"

definition rtDown :: runtime where
  "rtDown = rtOffline\<lparr> rt_Do := (\<lambda>sent req. Inr resp503) \<rparr>"

text \<open>
  A backend that works: a search finds one issue, and a creation returns the new issue's
  id and key. The bodies are opaque texts that the decoders of this runtime understand.
\<close>

definition issueLogin :: JiraIssue where
  "issueLogin =
     \<lparr> ji_ID = ''20001'', ji_Key = ''QA-1'',
       ji_Fields = zeroIssueFields\<lparr>
         if_Summary := ''Login works'',
         if_IssueType := zeroIssueType\<lparr> it_Name := ''Test'' \<rparr>,
         if_Project := zeroProject\<lparr> pj_Key := ''QA'' \<rparr>,
         if_Priority := zeroPriority\<lparr> pr_Name := ''High'' \<rparr>,
         if_Status := zeroStatus\<lparr> st_Name := ''Done'' \<rparr>,
         if_Reporter := zeroUser\<lparr> us_DisplayName := ''Alice'' \<rparr>,
         if_Labels := [''login''] \<rparr> \<rparr>"

definition respFound :: http_response where
  "respFound = \<lparr> rs_StatusCode = 200, rs_Body = Inr ''one issue found'' \<rparr>"

definition respCreated :: http_response where
  "respCreated = \<lparr> rs_StatusCode = 201, rs_Body = Inr ''issue created'' \<rparr>"

definition rtUp :: runtime where
  "rtUp = rtOffline\<lparr>
     rt_Do := (\<lambda>sent req. if rq_Method req = ''POST'' then Inr respCreated else Inr respFound),
     rt_unmarshalJiraResponse :=
       (\<lambda>body. if body = ''one issue found''
               then Inr \<lparr> jr_Issues = [issueLogin], jr_StartAt = 0, jr_MaxResults = 100,
                          jr_Total = 1 \<rparr>
               else Inl ''invalid character''),
     rt_unmarshalCreateIssueResponse :=
       (\<lambda>body. if body = ''issue created''
               then Inr \<lparr> cr_ID = ''20002'', cr_Key = ''QA-2'',
                          cr_Self = ''https://jira.example.com/rest/api/3/issue/20002'' \<rparr>
               else Inl ''invalid character'') \<rparr>"

definition teSprint :: TestExecution where
  "teSprint = zeroTestExecution\<lparr> te_Summary := ''Sprint 1'',
                te_TestCases := [''TEST-1'', ''TEST-2''],
                te_ExecutionStatus := ''EXECUTING'',
                te_Environment := ''QA'' \<rparr>"


text \<open>
  An environment whose username is a real one and whose token is the placeholder, and
  the application \<open>main\<close> starts from it.
\<close>

definition envTokenOnly :: environ where
  "envTokenOnly = [''JIRA_BASE_URL'' \<mapsto> ''https://jira.example.com/'',
                   ''JIRA_USERNAME'' \<mapsto> ''alice'',
                   ''JIRA_API_TOKEN'' \<mapsto> ''demo_token_replace_with_actual'',
                   ''JIRA_PROJECT_KEY'' \<mapsto> ''QA'']"

definition appTokenOnly :: app where
  "appTokenOnly =
     \<lparr> config = \<lparr> JiraBaseURL = ''https://jira.example.com/'', JiraUsername = ''alice'',
                   JiraAPIToken = ''demo_token_replace_with_actual'', JiraProjectKey = ''QA'',
                   Port = ''8080'' \<rparr>,
       jiraClient = \<lparr> cl_BaseURL = ''https://jira.example.com'', cl_Username = ''alice'',
                       cl_APIToken = ''demo_token_replace_with_actual'',
                       cl_ProjectKey = ''QA'' \<rparr> \<rparr>"

definition appReal :: app where
  "appReal = \<lparr> config = cfgFull, jiraClient = realClient \<rparr>"

section \<open>Configuration loading\<close>

lemma Getenv_empty_iff: "Getenv env key = [] \<longleftrightarrow> env key = None \<or> env key = Some []"
  by (simp add: Getenv_def split: option.splits)

lemma getEnvOrDefault_unset:
  "env key = None \<or> env key = Some [] \<Longrightarrow> getEnvOrDefault env key d = d"
  by (auto simp: getEnvOrDefault_def Getenv_def)

lemma Getenv_upd_empty: "Getenv (env(k \<mapsto> [])) = Getenv (env(k := None))"
  by (rule ext) (simp add: Getenv_def)

lemma getEnvOrDefault_upd_empty:
  "getEnvOrDefault (env(k \<mapsto> [])) = getEnvOrDefault (env(k := None))"
  by (intro ext) (simp add: getEnvOrDefault_def Getenv_upd_empty)

lemma LoadConfig_upd_empty: "LoadConfig (env(k \<mapsto> [])) = LoadConfig (env(k := None))"
  unfolding LoadConfig_def getEnvOrDefault_upd_empty ..

lemma getEnvOrDefault_empty_default: "getEnvOrDefault env key [] = Getenv env key"
  by (simp add: getEnvOrDefault_def Let_def)

lemma LoadConfig_cases:
  "LoadConfig env =
     (if Getenv env ''JIRA_BASE_URL'' = [] then Inl ''JIRA_BASE_URL is required''
      else if Getenv env ''JIRA_USERNAME'' = [] then Inl ''JIRA_USERNAME is required''
      else if Getenv env ''JIRA_API_TOKEN'' = [] then Inl ''JIRA_API_TOKEN is required''
      else if Getenv env ''JIRA_PROJECT_KEY'' = [] then Inl ''JIRA_PROJECT_KEY is required''
      else Inr \<lparr> JiraBaseURL = Getenv env ''JIRA_BASE_URL'',
                 JiraUsername = Getenv env ''JIRA_USERNAME'',
                 JiraAPIToken = Getenv env ''JIRA_API_TOKEN'',
                 JiraProjectKey = Getenv env ''JIRA_PROJECT_KEY'',
                 Port = getEnvOrDefault env ''PORT'' ''8080'' \<rparr>)"
  by (simp add: LoadConfig_def Let_def getEnvOrDefault_empty_default)

text \<open>
  Claim C10. \<open>getEnvOrDefault\<close> returns the default whenever the variable is unset or
  set to the empty string. Hence \<open>LoadConfig\<close> cannot tell a variable set to the empty
  string from an absent one; it fails with the error of the first required variable, in
  the order base URL, username, token, project key, that is unset or empty; and when it
  succeeds with \<open>PORT\<close> unset or empty, the port is \<open>8080\<close>.
\<close>

theorem getEnvOrDefault_empty_as_unset:
  "(env key = None \<or> env key = Some [] \<longrightarrow> getEnvOrDefault env key d = d)
   \<and> LoadConfig (env(key \<mapsto> [])) = LoadConfig (env(key := None))
   \<and> (unsetOrEmpty env ''JIRA_BASE_URL''
        \<longrightarrow> LoadConfig env = Inl ''JIRA_BASE_URL is required'')
   \<and> (\<not> unsetOrEmpty env ''JIRA_BASE_URL'' \<and> unsetOrEmpty env ''JIRA_USERNAME''
        \<longrightarrow> LoadConfig env = Inl ''JIRA_USERNAME is required'')
   \<and> (\<not> unsetOrEmpty env ''JIRA_BASE_URL'' \<and> \<not> unsetOrEmpty env ''JIRA_USERNAME''
        \<and> unsetOrEmpty env ''JIRA_API_TOKEN''
        \<longrightarrow> LoadConfig env = Inl ''JIRA_API_TOKEN is required'')
   \<and> (\<not> unsetOrEmpty env ''JIRA_BASE_URL'' \<and> \<not> unsetOrEmpty env ''JIRA_USERNAME''
        \<and> \<not> unsetOrEmpty env ''JIRA_API_TOKEN'' \<and> unsetOrEmpty env ''JIRA_PROJECT_KEY''
        \<longrightarrow> LoadConfig env = Inl ''JIRA_PROJECT_KEY is required'')
   \<and> (unsetOrEmpty env ''PORT'' \<and> LoadConfig env = Inr cfg \<longrightarrow> Port cfg = ''8080'')"
proof (intro conjI impI)
  show "getEnvOrDefault env key d = d" if "env key = None \<or> env key = Some []"
    using that by (rule getEnvOrDefault_unset)
  show "LoadConfig (env(key \<mapsto> [])) = LoadConfig (env(key := None))"
    by (rule LoadConfig_upd_empty)
  show "Port cfg = ''8080''" if "unsetOrEmpty env ''PORT'' \<and> LoadConfig env = Inr cfg"
    using that unfolding unsetOrEmpty_def
    by (auto simp: LoadConfig_cases getEnvOrDefault_unset split: if_splits)
qed (simp_all add: LoadConfig_cases unsetOrEmpty_def Getenv_empty_iff)

theorem getEnvOrDefault_empty_as_unset_witness:
  "envFull ''PORT'' = Some []
   \<and> getEnvOrDefault envFull ''PORT'' ''8080'' = ''8080''
   \<and> LoadConfig envFull = Inr cfgFull \<and> Port cfgFull = ''8080''
   \<and> envEmptyToken ''JIRA_API_TOKEN'' = Some []
   \<and> LoadConfig envEmptyToken = Inl ''JIRA_API_TOKEN is required''
   \<and> LoadConfig (envEmptyToken(''JIRA_API_TOKEN'' := None)) = LoadConfig envEmptyToken
   \<and> envNoBase ''JIRA_BASE_URL'' = None
   \<and> LoadConfig envNoBase = Inl ''JIRA_BASE_URL is required''
   \<and> envEmptyUser ''JIRA_USERNAME'' = Some []
   \<and> LoadConfig envEmptyUser = Inl ''JIRA_USERNAME is required''
   \<and> envNoProject ''JIRA_PROJECT_KEY'' = None
   \<and> LoadConfig envNoProject = Inl ''JIRA_PROJECT_KEY is required''"
proof -
  have p: "envFull ''PORT'' = Some []"
    by (simp add: envFull_def)
  have full: "LoadConfig envFull = Inr cfgFull"
    by (simp add: LoadConfig_def getEnvOrDefault_def Getenv_def envFull_def cfgFull_def)
  have t: "envEmptyToken ''JIRA_API_TOKEN'' = Some []"
    by (simp add: envEmptyToken_def)
  have hyp: "\<not> unsetOrEmpty envEmptyToken ''JIRA_BASE_URL''
      \<and> \<not> unsetOrEmpty envEmptyToken ''JIRA_USERNAME''
      \<and> unsetOrEmpty envEmptyToken ''JIRA_API_TOKEN''"
    by (simp add: unsetOrEmpty_def envEmptyToken_def)
  have same: "envEmptyToken(''JIRA_API_TOKEN'' \<mapsto> []) = envEmptyToken"
    using t by (rule fun_upd_idem)
  from getEnvOrDefault_empty_as_unset [of envFull "''PORT''" "''8080''" cfgFull] p full
  have a: "getEnvOrDefault envFull ''PORT'' ''8080'' = ''8080''" and b: "Port cfgFull = ''8080''"
    by (simp_all add: unsetOrEmpty_def)
  from getEnvOrDefault_empty_as_unset [of envEmptyToken "''JIRA_API_TOKEN''"] hyp
  have c: "LoadConfig envEmptyToken = Inl ''JIRA_API_TOKEN is required''"
    by blast
  from getEnvOrDefault_empty_as_unset [of envEmptyToken "''JIRA_API_TOKEN''"]
  have "LoadConfig (envEmptyToken(''JIRA_API_TOKEN'' \<mapsto> []))
      = LoadConfig (envEmptyToken(''JIRA_API_TOKEN'' := None))"
    by blast
  then have d: "LoadConfig (envEmptyToken(''JIRA_API_TOKEN'' := None)) = LoadConfig envEmptyToken"
    unfolding same by (rule sym)
  have nb: "envNoBase ''JIRA_BASE_URL'' = None"
    by (simp add: envNoBase_def)
  from getEnvOrDefault_empty_as_unset [of envNoBase] nb
  have e: "LoadConfig envNoBase = Inl ''JIRA_BASE_URL is required''"
    by (simp add: unsetOrEmpty_def)
  have eu: "envEmptyUser ''JIRA_USERNAME'' = Some []"
    by (simp add: envEmptyUser_def)
  have hypu: "\<not> unsetOrEmpty envEmptyUser ''JIRA_BASE_URL''
      \<and> unsetOrEmpty envEmptyUser ''JIRA_USERNAME''"
    by (simp add: unsetOrEmpty_def envEmptyUser_def)
  from getEnvOrDefault_empty_as_unset [of envEmptyUser] hypu
  have f: "LoadConfig envEmptyUser = Inl ''JIRA_USERNAME is required''"
    by blast
  have np: "envNoProject ''JIRA_PROJECT_KEY'' = None"
    by (simp add: envNoProject_def)
  have hypp: "\<not> unsetOrEmpty envNoProject ''JIRA_BASE_URL''
      \<and> \<not> unsetOrEmpty envNoProject ''JIRA_USERNAME''
      \<and> \<not> unsetOrEmpty envNoProject ''JIRA_API_TOKEN''
      \<and> unsetOrEmpty envNoProject ''JIRA_PROJECT_KEY''"
    by (simp add: unsetOrEmpty_def envNoProject_def)
  from getEnvOrDefault_empty_as_unset [of envNoProject] hypp
  have g: "LoadConfig envNoProject = Inl ''JIRA_PROJECT_KEY is required''"
    by blast
  from p a full b t c d nb e eu f np g show ?thesis by blast
qed

section \<open>The demo paths of the client\<close>

lemma demoClient_demo: "isDemoCredentials demoClient"
  by (simp add: demoClient_def NewClient_def isDemoCredentials_def)

text \<open>
  Claim C1, as stated, fails: besides id, key, status and reporter, the demo path of
  \<open>CreateTestCase\<close> overwrites the creation date with the current time. For the sample
  test case, whose creation date is the zero time, the result is not the input with only
  the four fields replaced.
\<close>

theorem CreateTestCase_demo_counterexample:
  "isDemoCredentials demoClient
   \<and> tc_CreatedDate tcLogin = 0
   \<and> fst (CreateTestCase rtOffline demoClient tcLogin world0)
       = Inr (tcLogin\<lparr> tc_ID := ''10004'', tc_Key := ''TEST-4'', tc_Status := ''To Do'',
                        tc_CreatedDate := 1700000000, tc_Reporter := ''Demo User'' \<rparr>)
   \<and> fst (CreateTestCase rtOffline demoClient tcLogin world0)
       \<noteq> Inr (tcLogin\<lparr> tc_ID := ''10004'', tc_Key := ''TEST-4'', tc_Status := ''To Do'',
                        tc_Reporter := ''Demo User'' \<rparr>)"
  by (simp add: demoClient_demo CreateTestCase_def createMockTestCase_def Now_def
      rtOffline_def world0_def tcLogin_def zeroTestCase_def zeroTime_def)

text \<open>
  Claim C1, amended. Under demo credentials \<open>CreateTestCase\<close> hands no request to the
  transport and returns a copy of the input in which exactly id, key, status, creation
  date and reporter are overwritten: with \<open>10004\<close>, \<open>TEST-4\<close>, \<open>To Do\<close>, the current time
  (one reading of the clock) and \<open>Demo User\<close>. Every other field is the input's.
\<close>

theorem CreateTestCase_demo:
  "isDemoCredentials c \<Longrightarrow>
     CreateTestCase rt c tc w =
       (Inr (tc\<lparr> tc_ID := ''10004'', tc_Key := ''TEST-4'', tc_Status := ''To Do'',
                 tc_CreatedDate := rt_timeAt rt (w_clock w), tc_Reporter := ''Demo User'' \<rparr>),
        w\<lparr> w_clock := Suc (w_clock w) \<rparr>)
     \<and> w_sent (snd (CreateTestCase rt c tc w)) = w_sent w"
  by (simp add: CreateTestCase_def createMockTestCase_def Now_def)

theorem CreateTestCase_demo_witness:
  "isDemoCredentials demoClient
   \<and> CreateTestCase rtOffline demoClient tcLogin world0 =
       (Inr (tcLogin\<lparr> tc_ID := ''10004'', tc_Key := ''TEST-4'', tc_Status := ''To Do'',
                 tc_CreatedDate := 1700000000, tc_Reporter := ''Demo User'' \<rparr>),
        \<lparr> w_sent = [], w_clock = 1 \<rparr>)"
  using CreateTestCase_demo [OF demoClient_demo, of rtOffline tcLogin world0]
  by (simp add: demoClient_demo rtOffline_def world0_def)

text \<open>
  Claim C3, as stated, fails: the start date of the canned execution and the execution
  times of its two results are readings of the clock, not fixed values. Two calls with
  the same key, the second after five more clock readings, return different entities.
\<close>

theorem GetTestExecution_demo_counterexample:
  "isDemoCredentials demoClient
   \<and> te_StartDate (projr (fst (GetTestExecution rtOffline demoClient ''EXEC-7'' world0)))
       = 1699913600
   \<and> te_StartDate (projr (fst (GetTestExecution rtOffline demoClient ''EXEC-7'' world5)))
       = 1699913605
   \<and> fst (GetTestExecution rtOffline demoClient ''EXEC-7'' world0)
       \<noteq> fst (GetTestExecution rtOffline demoClient ''EXEC-7'' world5)"
  by (simp add: demoClient_demo GetTestExecution_def getMockTestExecution_def Now_def
      rtOffline_def world0_def world5_def zeroTestExecution_def zeroTestResult_def)

text \<open>
  Claim C3, amended. Under demo credentials \<open>GetTestExecution\<close> hands no request to the
  transport and returns an execution whose key is the requested key and whose other
  fields do not depend on the key: they are fixed values, except that the start date is
  one day before the current time and the execution time of each result is the current
  time (three successive readings of the clock). There are exactly two results, the
  first with status \<open>PASS\<close> and no defect, the second with status \<open>FAIL\<close> and the
  defect \<open>BUG-123\<close>.
\<close>

theorem GetTestExecution_demo:
  "isDemoCredentials c \<Longrightarrow>
     GetTestExecution rt c key w =
       (Inr \<lparr> te_ID = ''10005'',
              te_Key = key,
              te_Summary = ''Demo Test Execution'',
              te_Description = ''This is a demo test execution'',
              te_Status = ''In Progress'',
              te_TestCases = [''TEST-1'', ''TEST-2''],
              te_ExecutionStatus = ''EXECUTING'',
              te_StartDate = rt_AddDate rt (rt_timeAt rt (w_clock w)) 0 0 (-1),
              te_EndDate = zeroTime,
              te_ExecutedBy = ''Demo User'',
              te_Environment = ''QA'',
              te_TestResults =
                [ \<lparr> tr_TestCaseKey = ''TEST-1'', tr_Status = ''PASS'',
                    tr_Comment = ''Test passed successfully'', tr_ExecutionTime = 5000,
                    tr_ExecutedBy = ''Demo User'',
                    tr_ExecutedOn = rt_timeAt rt (w_clock w + 1),
                    tr_Defects = [], tr_Evidence = [] \<rparr>,
                  \<lparr> tr_TestCaseKey = ''TEST-2'', tr_Status = ''FAIL'',
                    tr_Comment = ''Test failed due to timeout'', tr_ExecutionTime = 10000,
                    tr_ExecutedBy = ''Demo User'',
                    tr_ExecutedOn = rt_timeAt rt (w_clock w + 2),
                    tr_Defects = [''BUG-123''], tr_Evidence = [] \<rparr> ],
              te_CustomFields = Map.empty \<rparr>,
        w\<lparr> w_clock := w_clock w + 3 \<rparr>)
     \<and> w_sent (snd (GetTestExecution rt c key w)) = w_sent w"
  by (simp add: GetTestExecution_def getMockTestExecution_def Now_def
      zeroTestExecution_def zeroTestResult_def)

theorem GetTestExecution_demo_witness:
  "isDemoCredentials demoClient
   \<and> te_Key (projr (fst (GetTestExecution rtOffline demoClient ''EXEC-7'' world0))) = ''EXEC-7''
   \<and> te_StartDate (projr (fst (GetTestExecution rtOffline demoClient ''EXEC-7'' world0)))
       = 1699913600
   \<and> map tr_Status
        (te_TestResults (projr (fst (GetTestExecution rtOffline demoClient ''EXEC-7'' world0))))
       = [''PASS'', ''FAIL'']
   \<and> snd (GetTestExecution rtOffline demoClient ''EXEC-7'' world0)
       = \<lparr> w_sent = [], w_clock = 3 \<rparr>"
  using GetTestExecution_demo [OF demoClient_demo, of rtOffline "''EXEC-7''" world0]
  by (simp add: demoClient_demo rtOffline_def world0_def)

section \<open>Listing test cases\<close>

lemma handleResponse_fails_iff:
  "isl (handleResponse rt resp (Some unmarshal) cur) = responseFails resp unmarshal"
  by (simp add: handleResponse_def responseFails_def split: sum.splits)


lemma makeRequest_sends:
  "rt_NewRequest rt method (cl_BaseURL c @ ''/rest/api/3/'' @ endpoint) = None \<Longrightarrow>
     makeRequest rt c method endpoint body w =
       (let req = \<lparr> rq_Method = method,
                    rq_URL = cl_BaseURL c @ ''/rest/api/3/'' @ endpoint,
                    rq_Header = standardHeader rt c,
                    rq_Body = map_option marshalCreateIssueRequest body \<rparr>
        in (case rt_Do rt (w_sent w) req of
              Inl err \<Rightarrow> Inl (Wrap ''failed to make request'' (LibError err))
            | Inr resp \<Rightarrow> Inr resp,
            w\<lparr> w_sent := w_sent w @ [req] \<rparr>))"
  by (simp add: makeRequest_def standardHeader_def Let_def split: sum.splits option.splits)



lemma ListTestCases_unfold:
  assumes "rt_NewRequest rt ''GET'' (rq_URL (listTestCasesRequest rt c)) = None"
  shows "ListTestCases rt c w =
     (let w' = w\<lparr> w_sent := w_sent w @ [listTestCasesRequest rt c] \<rparr>
      in case rt_Do rt (w_sent w) (listTestCasesRequest rt c) of
           Inl err \<Rightarrow> (Inl (Wrap ''failed to fetch test cases''
                              (Wrap ''failed to make request'' (LibError err))), w')
         | Inr resp \<Rightarrow>
             (case handleResponse rt resp (Some (rt_unmarshalJiraResponse rt)) zeroJiraResponse of
                Inl err \<Rightarrow>
                  if isDemoCredentials c
                  then (Inr (fst (getMockTestCases rt w')), snd (getMockTestCases rt w'))
                  else (Inl err, w')
              | Inr jiraResp \<Rightarrow> (Inr (issuesTestCases (jr_Issues jiraResp)), w')))"
proof -
  have url: "cl_BaseURL c @ ''/rest/api/3/'' @ ''search?jql='' @ (''project = '' @ cl_ProjectKey c @ '' AND issuetype = Test'') @ ''&maxResults=100''
      = rq_URL (listTestCasesRequest rt c)"
    by (simp add: listTestCasesRequest_def)
  have req: "\<lparr> rq_Method = ''GET'', rq_URL = rq_URL (listTestCasesRequest rt c),
              rq_Header = standardHeader rt c, rq_Body = map_option marshalCreateIssueRequest None \<rparr>
      = listTestCasesRequest rt c"
    by (simp add: listTestCasesRequest_def)
  show ?thesis
    unfolding ListTestCases_def Let_def
    using assms
    by (simp only: makeRequest_sends url req Let_def) (simp split: sum.splits prod.splits)
qed


lemma realClient_not_demo: "\<not> isDemoCredentials realClient"
  by (simp add: realClient_def NewClient_def isDemoCredentials_def)

lemma NewRequest_fixtures:
  "rt_NewRequest rtOffline m u = None" "rt_NewRequest rtDown m u = None"
  "rt_NewRequest rtUp m u = None"
  by (simp_all add: rtOffline_def rtDown_def rtUp_def)



section \<open>Validation in the handlers\<close>



text \<open>
  Claim C5. Whatever the client, the runtime and the world: when \<open>ShouldBindJSON\<close>
  stores a test execution whose list of test cases is empty, the handler of
  POST /api/testexecutions answers 400, with the error \<open>Summary is required\<close> when the
  summary is empty too and \<open>At least one test case is required\<close> otherwise; when
  \<open>ShouldBindJSON\<close> itself rejects the body, the handler answers 400 with the error
  \<open>Invalid request body\<close>. In both cases the world is returned as it was, so
  \<open>CreateTestExecution\<close> is not called.
\<close>

theorem createTestExecution_no_test_cases_rejected:
  "te_TestCases te = [] \<Longrightarrow>
     createTestExecution a rt (Inr te) w
       = (\<lparr> rp_Status = 400,
            rp_Body = [(''error'',
                        GString (if te_Summary te = [] then ''Summary is required''
                                 else ''At least one test case is required''))] \<rparr>, w)
     \<and> createTestExecution a rt (Inl err) w
       = (\<lparr> rp_Status = 400,
            rp_Body = [(''error'', GString ''Invalid request body''),
                       (''details'', GString err)] \<rparr>, w)"
  by (simp add: createTestExecution_def JSON_def StatusBadRequest_def)

theorem createTestExecution_no_test_cases_rejected_witness:
  "te_TestCases (teSprint\<lparr> te_TestCases := [] \<rparr>) = []
   \<and> createTestExecution appReal rtUp
        (Inr (teSprint\<lparr> te_TestCases := [] \<rparr>)) world0
       = (\<lparr> rp_Status = 400,
            rp_Body = [(''error'', GString ''At least one test case is required'')] \<rparr>,
          \<lparr> w_sent = [], w_clock = 0 \<rparr>)
   \<and> createTestExecution appReal rtUp (Inr zeroTestExecution) world0
       = (\<lparr> rp_Status = 400, rp_Body = [(''error'', GString ''Summary is required'')] \<rparr>,
          \<lparr> w_sent = [], w_clock = 0 \<rparr>)"
  using createTestExecution_no_test_cases_rejected [of "teSprint\<lparr> te_TestCases := [] \<rparr>" appReal
      rtUp world0]
    createTestExecution_no_test_cases_rejected [of zeroTestExecution appReal rtUp world0]
  by (simp add: world0_def teSprint_def zeroTestExecution_def)

text \<open>
  Claim C8. The handler of GET /api/testcases/:key answers 200 with a fixed test case in
  which only the key varies, and it is the requested key. The answer is the same for
  every application state and runtime, so under any credentials, and the world is
  returned as it was: the client is not called and nothing is sent.
\<close>

theorem getTestCase_canned:
  "getTestCase a rt key w
     = (\<lparr> rp_Status = 200,
          rp_Body = [(''testCase'',
                        GH [(''id'', GString ''10001''),
                            (''key'', GString key),
                            (''summary'', GString ''Sample Test Case''),
                            (''description'', GString ''This is a sample test case''),
                            (''status'', GString ''To Do''),
                            (''priority'', GString ''Medium'')]),
                     (''message'', GString ''Test case retrieved successfully'')] \<rparr>, w)
   \<and> getTestCase a rt key w = getTestCase a' rt' key w"
  by (simp add: getTestCase_def JSON_def StatusOK_def)


section \<open>Demo mode as the client and as the endpoints see it\<close>

lemma startup_client:
  "startup env = Inr a \<Longrightarrow>
     cl_Username (jiraClient a) = JiraUsername (config a)
     \<and> cl_APIToken (jiraClient a) = JiraAPIToken (config a)"
  by (auto simp: startup_def NewClient_def split: sum.splits)

lemma CreateTestCase_mock:
  "isDemoCredentials c \<Longrightarrow>
     CreateTestCase rt c tc w
       = (Inr (fst (createMockTestCase rt tc w)), snd (createMockTestCase rt tc w))"
  by (simp add: CreateTestCase_def split: prod.splits)

lemma CreateTestExecution_mock:
  "isDemoCredentials c \<Longrightarrow>
     CreateTestExecution rt c te w
       = (Inr (fst (createMockTestExecution rt te w)), snd (createMockTestExecution rt te w))"
  by (simp add: CreateTestExecution_def split: prod.splits)

lemma GetTestExecution_mock:
  "isDemoCredentials c \<Longrightarrow>
     GetTestExecution rt c key w
       = (Inr (fst (getMockTestExecution rt key w)), snd (getMockTestExecution rt key w))"
  by (simp add: GetTestExecution_def split: prod.splits)

lemma mock_sent:
  "w_sent (snd (createMockTestCase rt tc w)) = w_sent w"
  "w_sent (snd (createMockTestExecution rt te w)) = w_sent w"
  "w_sent (snd (getMockTestExecution rt key w)) = w_sent w"
  by (simp_all add: createMockTestCase_def createMockTestExecution_def
      getMockTestExecution_def Now_def)

lemma ListTestCases_mock:
  assumes "isDemoCredentials c"
    and "rt_NewRequest rt ''GET'' (rq_URL (listTestCasesRequest rt c)) = None"
    and "rt_Do rt (w_sent w) (listTestCasesRequest rt c) = Inr resp"
    and "responseFails resp (rt_unmarshalJiraResponse rt)"
  shows "fst (ListTestCases rt c w)
     = Inr (fst (getMockTestCases rt (w\<lparr> w_sent := w_sent w @ [listTestCasesRequest rt c] \<rparr>)))"
proof -
  from assms(4) obtain e
    where "handleResponse rt resp (Some (rt_unmarshalJiraResponse rt)) zeroJiraResponse = Inl e"
    by (metis handleResponse_fails_iff isl_def)
  with assms(1,3) show ?thesis
    unfolding ListTestCases_unfold [OF assms(2)] by (simp add: Let_def)
qed

text \<open>
  Claim C9. The client takes credentials for demo credentials when the username is
  \<open>demo_user\<close> or the token is \<open>demo_token_replace_with_actual\<close>, while the health
  and info endpoints report \<open>demo_mode\<close> as the test of the username alone. So for an
  application started from a configuration whose username is not \<open>demo_user\<close> and whose
  token is the placeholder, both endpoints report \<open>demo_mode\<close> false and yet every
  operation of the client takes its demo path: the two creations and the retrieval
  return their mock result without a request, and the listing returns the canned list
  after a failed response.
\<close>

theorem demo_mode_report_mismatch:
  "startup env = Inr a \<Longrightarrow>
   JiraUsername (config a) \<noteq> ''demo_user'' \<Longrightarrow>
   JiraAPIToken (config a) = ''demo_token_replace_with_actual'' \<Longrightarrow>
     isDemoCredentials c'
       = (cl_Username c' = ''demo_user'' \<or> cl_APIToken c' = ''demo_token_replace_with_actual'')
     \<and> reportedDemoMode (healthCheck a') ''jira''
         = Some (GBool (JiraUsername (config a') = ''demo_user''))
     \<and> reportedDemoMode (getAPIInfo a') ''configuration''
         = Some (GBool (JiraUsername (config a') = ''demo_user''))
     \<and> isDemoCredentials (jiraClient a)
     \<and> reportedDemoMode (healthCheck a) ''jira'' = Some (GBool False)
     \<and> reportedDemoMode (getAPIInfo a) ''configuration'' = Some (GBool False)
     \<and> CreateTestCase rt (jiraClient a) tc w
         = (Inr (fst (createMockTestCase rt tc w)), snd (createMockTestCase rt tc w))
     \<and> CreateTestExecution rt (jiraClient a) te w
         = (Inr (fst (createMockTestExecution rt te w)), snd (createMockTestExecution rt te w))
     \<and> GetTestExecution rt (jiraClient a) key w
         = (Inr (fst (getMockTestExecution rt key w)), snd (getMockTestExecution rt key w))
     \<and> w_sent (snd (CreateTestCase rt (jiraClient a) tc w)) = w_sent w
     \<and> w_sent (snd (CreateTestExecution rt (jiraClient a) te w)) = w_sent w
     \<and> w_sent (snd (GetTestExecution rt (jiraClient a) key w)) = w_sent w
     \<and> (rt_NewRequest rt ''GET'' (rq_URL (listTestCasesRequest rt (jiraClient a))) = None
         \<and> rt_Do rt (w_sent w) (listTestCasesRequest rt (jiraClient a)) = Inr resp
         \<and> responseFails resp (rt_unmarshalJiraResponse rt)
         \<longrightarrow> fst (ListTestCases rt (jiraClient a) w)
               = Inr (fst (getMockTestCases rt
                      (w\<lparr> w_sent := w_sent w @ [listTestCasesRequest rt (jiraClient a)] \<rparr>))))"
proof -
  assume st: "startup env = Inr a"
    and user: "JiraUsername (config a) \<noteq> ''demo_user''"
    and token: "JiraAPIToken (config a) = ''demo_token_replace_with_actual''"
  from startup_client [OF st] token have demo: "isDemoCredentials (jiraClient a)"
    by (simp add: isDemoCredentials_def)
  have gen: "isDemoCredentials c'
       = (cl_Username c' = ''demo_user'' \<or> cl_APIToken c' = ''demo_token_replace_with_actual'')"
    by (simp add: isDemoCredentials_def)
  have health': "reportedDemoMode (healthCheck b) ''jira''
         = Some (GBool (JiraUsername (config b) = ''demo_user''))" for b
    by (simp add: reportedDemoMode_def healthCheck_def JSON_def)
  have info': "reportedDemoMode (getAPIInfo b) ''configuration''
         = Some (GBool (JiraUsername (config b) = ''demo_user''))" for b
    by (simp add: reportedDemoMode_def getAPIInfo_def JSON_def)
  have health: "reportedDemoMode (healthCheck a) ''jira'' = Some (GBool False)"
    using user by (simp add: health')
  have info: "reportedDemoMode (getAPIInfo a) ''configuration'' = Some (GBool False)"
    using user by (simp add: info')
  have quiet: "w_sent (snd (CreateTestCase rt (jiraClient a) tc w)) = w_sent w"
    "w_sent (snd (CreateTestExecution rt (jiraClient a) te w)) = w_sent w"
    "w_sent (snd (GetTestExecution rt (jiraClient a) key w)) = w_sent w"
    by (simp_all add: CreateTestCase_mock [OF demo] CreateTestExecution_mock [OF demo]
        GetTestExecution_mock [OF demo] mock_sent)
  from gen health' [of a'] info' [of a'] demo health info CreateTestCase_mock [OF demo]
    CreateTestExecution_mock [OF demo] GetTestExecution_mock [OF demo] quiet
    ListTestCases_mock [OF demo]
  show ?thesis by blast
qed

theorem demo_mode_report_mismatch_witness:
  "startup envTokenOnly = Inr appTokenOnly
   \<and> JiraUsername (config appTokenOnly) \<noteq> ''demo_user''
   \<and> JiraAPIToken (config appTokenOnly) = ''demo_token_replace_with_actual''
   \<and> isDemoCredentials (jiraClient appTokenOnly)
   \<and> reportedDemoMode (healthCheck appTokenOnly) ''jira'' = Some (GBool False)
   \<and> reportedDemoMode (getAPIInfo appTokenOnly) ''configuration'' = Some (GBool False)
   \<and> fst (CreateTestCase rtUp (jiraClient appTokenOnly) tcLogin world0)
       = Inr (tcLogin\<lparr> tc_ID := ''10004'', tc_Key := ''TEST-4'', tc_Status := ''To Do'',
                        tc_CreatedDate := 1700000000, tc_Reporter := ''Demo User'' \<rparr>)
   \<and> w_sent (snd (CreateTestCase rtUp (jiraClient appTokenOnly) tcLogin world0)) = []
   \<and> map tc_Key (projr (fst (ListTestCases rtDown (jiraClient appTokenOnly) world0)))
       = [''TEST-1'', ''TEST-2'', ''TEST-3'']"
proof -
  have st: "startup envTokenOnly = Inr appTokenOnly"
    by (simp add: startup_def LoadConfig_def getEnvOrDefault_def Getenv_def envTokenOnly_def
        appTokenOnly_def NewClient_def TrimSuffix_def HasSuffix_def)
  have user: "JiraUsername (config appTokenOnly) \<noteq> ''demo_user''"
    by (simp add: appTokenOnly_def)
  have token: "JiraAPIToken (config appTokenOnly) = ''demo_token_replace_with_actual''"
    by (simp add: appTokenOnly_def)
  note c9 = demo_mode_report_mismatch [OF st user token, where rt = rtUp and tc = tcLogin and w = world0]
  have mock: "createMockTestCase rtUp tcLogin world0
      = (tcLogin\<lparr> tc_ID := ''10004'', tc_Key := ''TEST-4'', tc_Status := ''To Do'',
                   tc_CreatedDate := 1700000000, tc_Reporter := ''Demo User'' \<rparr>,
         \<lparr> w_sent = [], w_clock = 1 \<rparr>)"
    by (simp add: createMockTestCase_def Now_def rtUp_def rtOffline_def world0_def)
  from c9 have "isDemoCredentials (jiraClient appTokenOnly)"
    and "reportedDemoMode (healthCheck appTokenOnly) ''jira'' = Some (GBool False)"
    and "reportedDemoMode (getAPIInfo appTokenOnly) ''configuration'' = Some (GBool False)"
    and "CreateTestCase rtUp (jiraClient appTokenOnly) tcLogin world0
         = (Inr (fst (createMockTestCase rtUp tcLogin world0)),
            snd (createMockTestCase rtUp tcLogin world0))"
    by blast+
  then have first: "isDemoCredentials (jiraClient appTokenOnly)
   \<and> reportedDemoMode (healthCheck appTokenOnly) ''jira'' = Some (GBool False)
   \<and> reportedDemoMode (getAPIInfo appTokenOnly) ''configuration'' = Some (GBool False)
   \<and> fst (CreateTestCase rtUp (jiraClient appTokenOnly) tcLogin world0)
       = Inr (tcLogin\<lparr> tc_ID := ''10004'', tc_Key := ''TEST-4'', tc_Status := ''To Do'',
                        tc_CreatedDate := 1700000000, tc_Reporter := ''Demo User'' \<rparr>)
   \<and> w_sent (snd (CreateTestCase rtUp (jiraClient appTokenOnly) tcLogin world0)) = []"
    using mock by simp
  have f503: "responseFails resp503 (rt_unmarshalJiraResponse rtDown)"
    by (simp add: responseFails_def resp503_def)
  have doDown: "rt_Do rtDown sent req = Inr resp503" for sent req
    by (simp add: rtDown_def)
  from demo_mode_report_mismatch [OF st user token, where rt = rtDown and w = world0
      and resp = resp503] NewRequest_fixtures(2) doDown f503
  have "fst (ListTestCases rtDown (jiraClient appTokenOnly) world0)
      = Inr (fst (getMockTestCases rtDown
               (world0\<lparr> w_sent := w_sent world0
                  @ [listTestCasesRequest rtDown (jiraClient appTokenOnly)] \<rparr>)))"
    by blast
  then have list: "map tc_Key (projr (fst (ListTestCases rtDown (jiraClient appTokenOnly) world0)))
       = [''TEST-1'', ''TEST-2'', ''TEST-3'']"
    by (simp add: getMockTestCases_def Now_def)
  from st user token first list show ?thesis by blast
qed


section \<open>The creation requests on the wire\<close>

lemma testCaseCreateReq_wire:
  "marshalCreateIssueRequest (testCaseCreateReq c tc) =
     JObj [(''fields'',
       JObj ([(''summary'', JStr (tc_Summary tc))]
             @ (if tc_Description tc = [] then []
                else [(''description'', JStr (tc_Description tc))])
             @ [(''issuetype'', JObj [(''name'', JStr ''Test'')]),
                (''project'', JObj [(''key'', JStr (cl_ProjectKey c))]),
                (''priority'', JObj [(''name'', JStr (tc_Priority tc))]),
                (''status'', JObj [(''name'', JStr [])]),
                (''reporter'', JObj []),
                (''assignee'', JObj [])]
             @ (if tc_Labels tc = [] then []
                else [(''labels'', JArr (map JStr (tc_Labels tc)))])))]"
  by (simp add: marshalCreateIssueRequest_def testCaseCreateReq_def marshalIssueFields_def
      marshalIssueType_def marshalProject_def marshalPriority_def marshalStatus_def
      marshalUser_def omitemptyString_def omitemptySlice_def zeroIssueFields_def
      zeroIssueType_def zeroProject_def zeroPriority_def zeroStatus_def zeroUser_def Let_def)

lemma testExecutionCreateReq_wire:
  "marshalCreateIssueRequest (testExecutionCreateReq c te) =
     JObj [(''fields'',
       JObj ([(''summary'', JStr (te_Summary te))]
             @ (if te_Description te = [] then []
                else [(''description'', JStr (te_Description te))])
             @ [(''issuetype'', JObj [(''name'', JStr ''Test Execution'')]),
                (''project'', JObj [(''key'', JStr (cl_ProjectKey c))]),
                (''priority'', JObj [(''name'', JStr [])]),
                (''status'', JObj [(''name'', JStr [])]),
                (''reporter'', JObj []),
                (''assignee'', JObj [])]))]"
  by (simp add: marshalCreateIssueRequest_def testExecutionCreateReq_def marshalIssueFields_def
      marshalIssueType_def marshalProject_def marshalPriority_def marshalStatus_def
      marshalUser_def omitemptyString_def omitemptySlice_def zeroIssueFields_def
      zeroIssueType_def zeroProject_def zeroPriority_def zeroStatus_def zeroUser_def)

lemma makeRequest_create_sent:
  "w_sent (snd (makeRequest rt c ''POST'' ''issue'' (Some body) w))
     = w_sent w @
       (case rt_NewRequest rt ''POST'' (cl_BaseURL c @ ''/rest/api/3/issue'') of
          Some err \<Rightarrow> []
        | None \<Rightarrow> [createIssueRequest rt c (marshalCreateIssueRequest body)])"
  by (simp add: makeRequest_def createIssueRequest_def standardHeader_def Let_def
      split: option.splits sum.splits)

lemma CreateTestCase_sent:
  "w_sent (snd (CreateTestCase rt c tc w))
     = w_sent w @
       (if isDemoCredentials c then []
        else case rt_NewRequest rt ''POST'' (cl_BaseURL c @ ''/rest/api/3/issue'') of
               Some err \<Rightarrow> []
             | None \<Rightarrow> [createIssueRequest rt c
                           (marshalCreateIssueRequest (testCaseCreateReq c tc))])"
proof (cases "isDemoCredentials c")
  case True
  then show ?thesis
    by (simp add: CreateTestCase_def createMockTestCase_def Now_def)
next
  case False
  obtain r w' where mk: "makeRequest rt c ''POST'' ''issue'' (Some (testCaseCreateReq c tc)) w = (r, w')"
    by (cases "makeRequest rt c ''POST'' ''issue'' (Some (testCaseCreateReq c tc)) w")
  with makeRequest_create_sent [of rt c "testCaseCreateReq c tc" w]
  have "w_sent w' = w_sent w @
       (case rt_NewRequest rt ''POST'' (cl_BaseURL c @ ''/rest/api/3/issue'') of
          Some err \<Rightarrow> []
        | None \<Rightarrow> [createIssueRequest rt c (marshalCreateIssueRequest (testCaseCreateReq c tc))])"
    by simp
  with False mk show ?thesis
    by (cases r) (simp_all add: CreateTestCase_def Now_def split: sum.splits)
qed

lemma CreateTestExecution_sent:
  "w_sent (snd (CreateTestExecution rt c te w))
     = w_sent w @
       (if isDemoCredentials c then []
        else case rt_NewRequest rt ''POST'' (cl_BaseURL c @ ''/rest/api/3/issue'') of
               Some err \<Rightarrow> []
             | None \<Rightarrow> [createIssueRequest rt c
                           (marshalCreateIssueRequest (testExecutionCreateReq c te))])"
proof (cases "isDemoCredentials c")
  case True
  then show ?thesis
    by (simp add: CreateTestExecution_def createMockTestExecution_def Now_def)
next
  case False
  obtain r w' where mk: "makeRequest rt c ''POST'' ''issue'' (Some (testExecutionCreateReq c te)) w = (r, w')"
    by (cases "makeRequest rt c ''POST'' ''issue'' (Some (testExecutionCreateReq c te)) w")
  with makeRequest_create_sent [of rt c "testExecutionCreateReq c te" w]
  have "w_sent w' = w_sent w @
       (case rt_NewRequest rt ''POST'' (cl_BaseURL c @ ''/rest/api/3/issue'') of
          Some err \<Rightarrow> []
        | None \<Rightarrow> [createIssueRequest rt c
                     (marshalCreateIssueRequest (testExecutionCreateReq c te))])"
    by simp
  with False mk show ?thesis
    by (cases r) (simp_all add: CreateTestExecution_def Now_def split: sum.splits)
qed

text \<open>
  The request \<open>CreateTestCase\<close> sends, for every test case: the member \<open>priority\<close> is
  always there, and carries the priority of the test case as its name, empty or not.
\<close>

lemma CreateTestCase_payload:
  "w_sent (snd (CreateTestCase rt c tc w))
     = w_sent w @
       (if isDemoCredentials c then []
        else case rt_NewRequest rt ''POST'' (cl_BaseURL c @ ''/rest/api/3/issue'') of
               Some err \<Rightarrow> []
             | None \<Rightarrow>
                 [createIssueRequest rt c
                    (JObj [(''fields'',
                       JObj ([(''summary'', JStr (tc_Summary tc))]
                             @ (if tc_Description tc = [] then []
                                else [(''description'', JStr (tc_Description tc))])
                             @ [(''issuetype'', JObj [(''name'', JStr ''Test'')]),
                                (''project'', JObj [(''key'', JStr (cl_ProjectKey c))]),
                                (''priority'', JObj [(''name'', JStr (tc_Priority tc))]),
                                (''status'', JObj [(''name'', JStr [])]),
                                (''reporter'', JObj []),
                                (''assignee'', JObj [])]
                             @ (if tc_Labels tc = [] then []
                                else [(''labels'', JArr (map JStr (tc_Labels tc)))])))])])"
  unfolding CreateTestCase_sent testCaseCreateReq_wire ..

text \<open>
  Claim C6. The creation request of \<open>CreateTestCase\<close> maps summary, description, the
  issue type \<open>Test\<close>, the configured project key and the labels as the claim says, but
  it does not leave the priority out when the test case has none. For the sample test
  case, whose priority is empty, sent by a client without demo credentials, the document
  handed to the transport still has the member \<open>priority\<close>, with an empty name: the
  field \<open>Priority\<close> of \<open>IssueFields\<close> is of struct type, and \<open>omitempty\<close> never
  drops a struct. The evaluation below is the whole document.
\<close>

theorem CreateTestCase_empty_priority_sent:
  "\<not> isDemoCredentials realClient
   \<and> tc_Priority tcLogin = []
   \<and> map rq_Body (w_sent (snd (CreateTestCase rtUp realClient tcLogin world0)))
       = [Some (JObj [(''fields'',
            JObj [(''summary'', JStr ''Login works''),
                  (''description'', JStr ''Valid credentials open the dashboard''),
                  (''issuetype'', JObj [(''name'', JStr ''Test'')]),
                  (''project'', JObj [(''key'', JStr ''QA'')]),
                  (''priority'', JObj [(''name'', JStr [])]),
                  (''status'', JObj [(''name'', JStr [])]),
                  (''reporter'', JObj []),
                  (''assignee'', JObj []),
                  (''labels'', JArr [JStr ''login''])])])]"
proof -
  have p: "tc_Priority tcLogin = []"
    by (simp add: tcLogin_def zeroTestCase_def)
  have "map rq_Body (w_sent (snd (CreateTestCase rtUp realClient tcLogin world0)))
       = [Some (JObj [(''fields'',
            JObj [(''summary'', JStr ''Login works''),
                  (''description'', JStr ''Valid credentials open the dashboard''),
                  (''issuetype'', JObj [(''name'', JStr ''Test'')]),
                  (''project'', JObj [(''key'', JStr ''QA'')]),
                  (''priority'', JObj [(''name'', JStr [])]),
                  (''status'', JObj [(''name'', JStr [])]),
                  (''reporter'', JObj []),
                  (''assignee'', JObj []),
                  (''labels'', JArr [JStr ''login''])])])]"
    unfolding CreateTestCase_payload
    by (simp add: isDemoCredentials_def NewRequest_fixtures world0_def createIssueRequest_def
        tcLogin_def zeroTestCase_def realClient_def NewClient_def)
  with realClient_not_demo p show ?thesis by blast
qed

text \<open>
  The request \<open>CreateTestExecution\<close> sends, for every test execution: nothing under
  demo credentials or when the request cannot be built, and otherwise one request whose
  document is determined by the summary and the description of the execution and by the
  configured project key.
\<close>

lemma CreateTestExecution_payload:
  "w_sent (snd (CreateTestExecution rt c te w))
     = w_sent w @
       (if isDemoCredentials c then []
        else case rt_NewRequest rt ''POST'' (cl_BaseURL c @ ''/rest/api/3/issue'') of
               Some err \<Rightarrow> []
             | None \<Rightarrow>
                 [\<lparr> rq_Method = ''POST'',
                    rq_URL = cl_BaseURL c @ ''/rest/api/3/issue'',
                    rq_Header = standardHeader rt c,
                    rq_Body = Some (JObj [(''fields'',
                      JObj ([(''summary'', JStr (te_Summary te))]
                            @ (if te_Description te = [] then []
                               else [(''description'', JStr (te_Description te))])
                            @ [(''issuetype'', JObj [(''name'', JStr ''Test Execution'')]),
                               (''project'', JObj [(''key'', JStr (cl_ProjectKey c))]),
                               (''priority'', JObj [(''name'', JStr [])]),
                               (''status'', JObj [(''name'', JStr [])]),
                               (''reporter'', JObj []),
                               (''assignee'', JObj [])]))]) \<rparr>])"
  unfolding CreateTestExecution_sent testExecutionCreateReq_wire createIssueRequest_def ..

text \<open>
  Claim C7. The list of test cases, the environment and the execution status of the
  execution occur nowhere in the creation request of \<open>CreateTestExecution\<close>, as the
  claim says, and under demo credentials nothing is sent at all. But the document does
  not contain only the summary, the description, the issue type \<open>Test Execution\<close> and
  the project key: for the sample execution, sent by a client without demo credentials,
  it also has the members \<open>priority\<close> and \<open>status\<close>, each with an empty name, and
  the empty members \<open>reporter\<close> and \<open>assignee\<close>. These fields of \<open>IssueFields\<close> are
  of struct type, and \<open>omitempty\<close> never drops a struct. The evaluation below is the
  whole document.
\<close>

theorem CreateTestExecution_zero_members_sent:
  "\<not> isDemoCredentials realClient
   \<and> rt_NewRequest rtUp ''POST'' (cl_BaseURL realClient @ ''/rest/api/3/issue'') = None
   \<and> te_TestCases teSprint = [''TEST-1'', ''TEST-2'']
   \<and> te_Environment teSprint = ''QA''
   \<and> te_ExecutionStatus teSprint = ''EXECUTING''
   \<and> map rq_Body (w_sent (snd (CreateTestExecution rtUp realClient teSprint world0)))
       = [Some (JObj [(''fields'',
            JObj [(''summary'', JStr ''Sprint 1''),
                  (''issuetype'', JObj [(''name'', JStr ''Test Execution'')]),
                  (''project'', JObj [(''key'', JStr ''QA'')]),
                  (''priority'', JObj [(''name'', JStr [])]),
                  (''status'', JObj [(''name'', JStr [])]),
                  (''reporter'', JObj []),
                  (''assignee'', JObj [])])])]
   \<and> w_sent (snd (CreateTestExecution rtUp demoClient teSprint world0)) = []"
proof -
  note sent = CreateTestExecution_payload [of rtUp realClient teSprint world0]
  note none = CreateTestExecution_payload [of rtUp demoClient teSprint world0]
  have fields: "te_TestCases teSprint = [''TEST-1'', ''TEST-2'']"
    "te_Environment teSprint = ''QA''" "te_ExecutionStatus teSprint = ''EXECUTING''"
    by (simp_all add: teSprint_def)
  have body: "map rq_Body (w_sent (snd (CreateTestExecution rtUp realClient teSprint world0)))
       = [Some (JObj [(''fields'',
            JObj [(''summary'', JStr ''Sprint 1''),
                  (''issuetype'', JObj [(''name'', JStr ''Test Execution'')]),
                  (''project'', JObj [(''key'', JStr ''QA'')]),
                  (''priority'', JObj [(''name'', JStr [])]),
                  (''status'', JObj [(''name'', JStr [])]),
                  (''reporter'', JObj []),
                  (''assignee'', JObj [])])])]"
    unfolding sent
    by (simp add: isDemoCredentials_def NewRequest_fixtures world0_def teSprint_def
        zeroTestExecution_def realClient_def NewClient_def)
  have demo: "w_sent (snd (CreateTestExecution rtUp demoClient teSprint world0)) = []"
    unfolding none by (simp add: demoClient_demo world0_def)
  from realClient_not_demo NewRequest_fixtures(3) fields body demo show ?thesis by blast
qed


end
